theory Spec2Isabelle
  imports Main "HOL-Library.Word"
begin

unbundle bit_operations_syntax

section \<open>CSRF middleware (csrf.go): data model\<close>

text \<open>
  The package is two HTTP middlewares, \<^verbatim>\<open>Generate\<close> and \<^verbatim>\<open>Validate\<close>, over three
  collaborators outside this file: the session package, \<^verbatim>\<open>net/http\<close> and the token
  functions \<^verbatim>\<open>GenerateToken\<close> / \<^verbatim>\<open>ValidToken\<close>. A handler is modelled as a function
  from the request and the world it runs in to an outcome and the new world.
\<close>

subsection \<open>Values held by collaborators\<close>

text \<open>
  A session value is a Go \<^verbatim>\<open>interface{}\<close>. The handler does three things with one: it
  tests it against \<^verbatim>\<open>nil\<close> (absence in the store, \<open>None\<close> below), it formats it with
  \<^verbatim>\<open>fmt.Sprintf("%s", v)\<close>, and it asserts it to be a \<^verbatim>\<open>string\<close>. So a value is either a
  string, or something else, kept as the text that the verb \<^verbatim>\<open>%s\<close> prints for it.
\<close>

datatype iface = VString string | VOther string

fun Sprintf_s :: "iface \<Rightarrow> string" where
  "Sprintf_s (VString s) = s"
| "Sprintf_s (VOther shown) = shown"

text \<open>Values of the per-request context: a \<^verbatim>\<open>string\<close> or a \<^verbatim>\<open>template.HTML\<close>.\<close>

datatype ctxval = CString string | CHTML string

text \<open>\<^verbatim>\<open>time.Now()\<close> and \<^verbatim>\<open>t.AddDate(years, months, days)\<close>, kept symbolic.\<close>

datatype gotime = Now | AddDate gotime int int int

record http_Cookie =
  Name :: string
  Value :: string
  Path :: string
  Domain :: string
  Expires :: "gotime option"
  Secure :: bool
  HttpOnly :: bool

text \<open>
  The response writer is the sequence of calls made on it:
  \<^verbatim>\<open>http.SetCookie(w, c)\<close>, \<^verbatim>\<open>w.Header().Add(k, v)\<close> and \<^verbatim>\<open>http.Error(w, msg, code)\<close>.
\<close>

datatype wcall =
    W_SetCookie http_Cookie
  | W_HeaderAdd string string
  | W_Error string nat

type_synonym ResponseWriter = "wcall list"

record Request =
  req_Header :: "string \<rightharpoonup> string"
  req_Cookie :: "string \<rightharpoonup> string"
  req_Form :: "string \<rightharpoonup> string"
  req_Context :: "string \<rightharpoonup> ctxval"

text \<open>
  Calls on the session package, on the token functions and \<^verbatim>\<open>r.FormValue\<close> (which parses
  the request body) are recorded in the order the handler makes them.
\<close>

datatype call =
    Call_GetSession
  | Call_sess_Get string
  | Call_sess_Set string string
  | Call_GetCookie string
  | Call_GenerateToken string string string
  | Call_FormValue string

record world =
  store :: "string \<rightharpoonup> iface"
  w :: ResponseWriter
  calls :: "call list"

datatype panic = TypeAssertion | NilFuncCall

datatype outcome = Panicked panic | Forward Request | Return

subsection \<open>The structs of csrf.go\<close>

record csrf =
  Header :: string
  Form :: string
  Cookie :: string
  CookieDomain :: string
  CookiePath :: string
  CookieHttpOnly :: bool
  Token :: string
  ID :: string
  Secret :: string
  ErrorFunc :: "(ResponseWriter \<Rightarrow> ResponseWriter) option"

record Options =
  Secret :: string
  Header :: string
  Form :: string
  Cookie :: string
  CookieDomain :: string
  CookiePath :: string
  CookieHttpOnly :: bool
  SessionKey :: string
  oldSeesionKey :: string
  SetHeader :: bool
  SetCookie :: bool
  Secure :: bool
  Origin :: bool
  ErrorFunc :: "(ResponseWriter \<Rightarrow> ResponseWriter) option"

subsection \<open>Collaborator calls\<close>

definition http_SetCookie :: "ResponseWriter \<Rightarrow> http_Cookie \<Rightarrow> ResponseWriter" where
  "http_SetCookie rw cookie = rw @ [W_SetCookie cookie]"

definition Header_Add :: "ResponseWriter \<Rightarrow> string \<Rightarrow> string \<Rightarrow> ResponseWriter" where
  "Header_Add rw k v = rw @ [W_HeaderAdd k v]"

definition http_Error :: "ResponseWriter \<Rightarrow> string \<Rightarrow> nat \<Rightarrow> ResponseWriter" where
  "http_Error rw msg code = rw @ [W_Error msg code]"

definition StatusBadRequest :: nat where
  "StatusBadRequest = 400"

text \<open>\<^verbatim>\<open>r.Header.Get(k)\<close>: the empty string when the header is absent.\<close>

definition Header_Get :: "Request \<Rightarrow> string \<Rightarrow> string" where
  "Header_Get r k = (case req_Header r k of None \<Rightarrow> [] | Some v \<Rightarrow> v)"

text \<open>\<^verbatim>\<open>r.FormValue(k)\<close>: the empty string when the field is absent.\<close>

definition form_of :: "Request \<Rightarrow> string \<Rightarrow> string" where
  "form_of r k = (case req_Form r k of None \<Rightarrow> [] | Some v \<Rightarrow> v)"

definition FormValue :: "Request \<Rightarrow> string \<Rightarrow> world \<Rightarrow> string \<times> world" where
  "FormValue r k s = (form_of r k, s\<lparr>calls := calls s @ [Call_FormValue k]\<rparr>)"

text \<open>\<^verbatim>\<open>session.GetSession(r)\<close>: the store the session middleware attached to the request.\<close>

definition session_GetSession :: "world \<Rightarrow> world" where
  "session_GetSession s = s\<lparr>calls := calls s @ [Call_GetSession]\<rparr>"

text \<open>\<^verbatim>\<open>sess.Get(k)\<close>: \<open>None\<close> is Go's \<^verbatim>\<open>nil\<close>.\<close>

definition sess_Get :: "string \<Rightarrow> world \<Rightarrow> iface option \<times> world" where
  "sess_Get k s = (store s k, s\<lparr>calls := calls s @ [Call_sess_Get k]\<rparr>)"

text \<open>
  \<^verbatim>\<open>_ = sess.Set(k, v)\<close> with a string \<open>v\<close>: the source drops the error result, and the
  store keeps what it is given.
\<close>

definition sess_Set :: "string \<Rightarrow> string \<Rightarrow> world \<Rightarrow> world" where
  "sess_Set k v s =
     s\<lparr>store := (store s)(k \<mapsto> VString v), calls := calls s @ [Call_sess_Set k v]\<rparr>"

text \<open>\<^verbatim>\<open>session.GetCookie(r, name)\<close>: the empty string when the request has no such cookie.\<close>

definition cookie_of :: "Request \<Rightarrow> string \<Rightarrow> string" where
  "cookie_of r name = (case req_Cookie r name of None \<Rightarrow> [] | Some v \<Rightarrow> v)"

definition session_GetCookie :: "Request \<Rightarrow> string \<Rightarrow> world \<Rightarrow> string \<times> world" where
  "session_GetCookie r name s = (cookie_of r name, s\<lparr>calls := calls s @ [Call_GetCookie name]\<rparr>)"

text \<open>
  \<^verbatim>\<open>session.NewCookie(name, value, path, domain, secure, httpOnly, expires)\<close>, of the session
  package: the cookie with these attributes.
\<close>

definition session_NewCookie ::
  "string \<Rightarrow> string \<Rightarrow> string \<Rightarrow> string \<Rightarrow> bool \<Rightarrow> bool \<Rightarrow> gotime \<Rightarrow> http_Cookie" where
  "session_NewCookie name val path domain secure httpOnly expires =
     \<lparr>Name = name, Value = val, Path = path, Domain = domain, Expires = Some expires,
      http_Cookie.Secure = secure, HttpOnly = httpOnly\<rparr>"

text \<open>
  \<^verbatim>\<open>GenerateToken(key, userID, actionID)\<close> is declared in a file of the package that is
  not part of the sources at hand, so the handlers take it as the parameter \<open>GenerateToken\<close>.
  The call is recorded.
\<close>

definition call_GenerateToken ::
  "(string \<Rightarrow> string \<Rightarrow> string \<Rightarrow> string) \<Rightarrow> string \<Rightarrow> string \<Rightarrow> string \<Rightarrow> world \<Rightarrow> string \<times> world" where
  "call_GenerateToken GenerateToken key userID actionID s =
     (GenerateToken key userID actionID,
      s\<lparr>calls := calls s @ [Call_GenerateToken key userID actionID]\<rparr>)"

section \<open>prepareOptions\<close>

text \<open>The zero value of \<^verbatim>\<open>Options\<close> (\<^verbatim>\<open>var opt Options\<close>).\<close>

definition zero_Options :: Options where
  "zero_Options =
     \<lparr>Options.Secret = [], Options.Header = [], Options.Form = [], Options.Cookie = [],
      Options.CookieDomain = [], Options.CookiePath = [], Options.CookieHttpOnly = False,
      SessionKey = [], oldSeesionKey = [], SetHeader = False, SetCookie = False,
      Options.Secure = False, Origin = False, Options.ErrorFunc = None\<rparr>"

text \<open>The function literal of lines 192-194.\<close>

definition default_ErrorFunc :: "ResponseWriter \<Rightarrow> ResponseWriter" where
  "default_ErrorFunc rw = http_Error rw ''Invalid csrf token.'' StatusBadRequest"

text \<open>
  \<open>rnd\<close> is the result of \<^verbatim>\<open>string(randomBytes(10))\<close>, the ten characters drawn from the
  random source when no secret is configured.
\<close>

definition prepareOptions :: "string \<Rightarrow> Options list \<Rightarrow> Options" where
  "prepareOptions rnd options =
     (let opt = (if length options > 0 then options ! 0 else zero_Options);
          opt = (if length (Options.Secret opt) = 0 then opt\<lparr>Options.Secret := rnd\<rparr> else opt);
          opt = (if length (Options.Header opt) = 0
                 then opt\<lparr>Options.Header := ''X-CSRFToken''\<rparr> else opt);
          opt = (if length (Options.Form opt) = 0 then opt\<lparr>Options.Form := ''_csrf''\<rparr> else opt);
          opt = (if length (Options.Cookie opt) = 0
                 then opt\<lparr>Options.Cookie := ''_csrf''\<rparr> else opt);
          opt = (if length (Options.CookiePath opt) = 0
                 then opt\<lparr>Options.CookiePath := ''/''\<rparr> else opt);
          opt = (if length (SessionKey opt) = 0 then opt\<lparr>SessionKey := ''uid''\<rparr> else opt);
          opt = opt\<lparr>oldSeesionKey := ''_old_'' @ SessionKey opt\<rparr>;
          opt = (if Options.ErrorFunc opt = None
                 then opt\<lparr>Options.ErrorFunc := Some default_ErrorFunc\<rparr> else opt)
      in opt)"

section \<open>Generate\<close>

text \<open>Lines 243-259: mint the token when needed, publish it, call the next handler.\<close>

definition Generate_publish ::
  "(string \<Rightarrow> string \<Rightarrow> string \<Rightarrow> string) \<Rightarrow> Options \<Rightarrow> Request \<Rightarrow> csrf \<Rightarrow> bool \<Rightarrow> world
     \<Rightarrow> outcome \<times> world" where
  \<open>Generate_publish GenerateToken opt r x needsNew s =
     (let (x, s) =
            (if needsNew then
               (let (tok, s) = call_GenerateToken GenerateToken (csrf.Secret x) (ID x) ''POST'' s;
                    x = x\<lparr>Token := tok\<rparr>
                in if SetCookie opt then
                     (let newCookie = session_NewCookie (Options.Cookie opt) (Token x)
                            (Options.CookiePath opt) (Options.CookieDomain opt) (Options.Secure opt)
                            (Options.CookieHttpOnly opt) (AddDate Now 0 0 1)
                      in (x, s\<lparr>w := http_SetCookie (w s) newCookie\<rparr>))
                   else (x, s))
             else (x, s));
          s = (if SetHeader opt then s\<lparr>w := Header_Add (w s) (Options.Header opt) (Token x)\<rparr> else s);
          ctx = req_Context r;
          ctx = ctx(''CsrfToken'' \<mapsto> CString (Token x))
      in case ctx ''CsrfToken'' of
           Some (CString tok) \<Rightarrow>
             (let ctx = ctx(''CsrfTokenHtml'' \<mapsto>
                          CHTML (''<input type="hidden" name="_csrf" value="'' @ tok @ ''">''));
                  r = r\<lparr>req_Context := ctx\<rparr>
              in (Forward r, s))
         | _ \<Rightarrow> (Panicked TypeAssertion, s))\<close>

text \<open>
  The type assertion \<^verbatim>\<open>v.(string)\<close> on a value that is not \<^verbatim>\<open>nil\<close>: it panics unless the
  value is a string.
\<close>

fun assert_string :: "iface \<Rightarrow> panic + string" where
  "assert_string (VString s) = Inr s"
| "assert_string (VOther shown) = Inl TypeAssertion"

text \<open>
  The handler that \<^verbatim>\<open>Generate\<close> returns, lines 206-260, for the prepared options \<open>opt\<close>.
  \<open>differs\<close> is the condition \<^verbatim>\<open>oldUid == nil || oldUid.(string) != x.ID\<close> of line 232, which
  asserts only when \<^verbatim>\<open>oldUid\<close> is not \<^verbatim>\<open>nil\<close>.
\<close>

definition Generate_handler ::
  "(string \<Rightarrow> string \<Rightarrow> string \<Rightarrow> string) \<Rightarrow> Options \<Rightarrow> Request \<Rightarrow> world \<Rightarrow> outcome \<times> world" where
  "Generate_handler GenerateToken opt r s =
     (let x = \<lparr>csrf.Header = Options.Header opt, csrf.Form = Options.Form opt,
               csrf.Cookie = Options.Cookie opt, csrf.CookieDomain = Options.CookieDomain opt,
               csrf.CookiePath = Options.CookiePath opt,
               csrf.CookieHttpOnly = Options.CookieHttpOnly opt,
               Token = [], ID = [], csrf.Secret = Options.Secret opt,
               csrf.ErrorFunc = Options.ErrorFunc opt\<rparr>;
          s = session_GetSession s
      in if Origin opt \<and> length (Header_Get r ''Origin'') > 0 then (Forward r, s)
         else
           (let x = x\<lparr>ID := ''0''\<rparr>;
                (uid, s) = sess_Get (SessionKey opt) s;
                x = (case uid of None \<Rightarrow> x | Some v \<Rightarrow> x\<lparr>ID := Sprintf_s v\<rparr>);
                needsNew = False;
                (oldUid, s) = sess_Get (oldSeesionKey opt) s;
                differs = (case oldUid of
                             None \<Rightarrow> Inr True
                           | Some v \<Rightarrow>
                               (case assert_string v of
                                  Inl p \<Rightarrow> Inl p
                                | Inr old \<Rightarrow> Inr (old \<noteq> ID x)))
            in case differs of
                 Inl p \<Rightarrow> (Panicked p, s)
               | Inr c \<Rightarrow>
                   (let (needsNew, x, s) =
                          (if c then (True, x, sess_Set (oldSeesionKey opt) (ID x) s)
                           else
                             (let (val, s) = session_GetCookie r (Options.Cookie opt) s
                              in if length val > 0 then (needsNew, x\<lparr>Token := val\<rparr>, s)
                                 else (True, x, s)))
                    in Generate_publish GenerateToken opt r x needsNew s)))"

text \<open>\<^verbatim>\<open>Generate(options...)\<close> prepares the options once and returns the handler.\<close>

definition Generate ::
  "(string \<Rightarrow> string \<Rightarrow> string \<Rightarrow> string) \<Rightarrow> string \<Rightarrow> Options list \<Rightarrow> Request \<Rightarrow> world
     \<Rightarrow> outcome \<times> world" where
  "Generate GenerateToken rnd options = Generate_handler GenerateToken (prepareOptions rnd options)"

definition Csrfer ::
  "(string \<Rightarrow> string \<Rightarrow> string \<Rightarrow> string) \<Rightarrow> string \<Rightarrow> Options list \<Rightarrow> Request \<Rightarrow> world
     \<Rightarrow> outcome \<times> world" where
  "Csrfer GenerateToken rnd options = Generate GenerateToken rnd options"

section \<open>The methods of csrf and the CSRF interface\<close>

definition csrf_GetHeaderName :: "csrf \<Rightarrow> string" where
  "csrf_GetHeaderName c = csrf.Header c"

definition csrf_GetFormName :: "csrf \<Rightarrow> string" where
  "csrf_GetFormName c = csrf.Form c"

definition csrf_GetCookieName :: "csrf \<Rightarrow> string" where
  "csrf_GetCookieName c = csrf.Cookie c"

definition csrf_GetCookiePath :: "csrf \<Rightarrow> string" where
  "csrf_GetCookiePath c = csrf.CookiePath c"

definition csrf_GetCookieHttpOnly :: "csrf \<Rightarrow> bool" where
  "csrf_GetCookieHttpOnly c = csrf.CookieHttpOnly c"

definition csrf_GetToken :: "csrf \<Rightarrow> string" where
  "csrf_GetToken c = Token c"

text \<open>
  \<^verbatim>\<open>(*csrf).ValidToken\<close>, lines 105-107. The package function
  \<^verbatim>\<open>ValidToken(token, key, userID, actionID)\<close> it calls is declared beside
  \<^verbatim>\<open>GenerateToken\<close>, outside the sources at hand, and is the parameter \<open>ValidToken\<close>.
\<close>

definition csrf_ValidToken ::
  "(string \<Rightarrow> string \<Rightarrow> string \<Rightarrow> string \<Rightarrow> bool) \<Rightarrow> csrf \<Rightarrow> string \<Rightarrow> bool" where
  "csrf_ValidToken ValidToken c t = ValidToken t (csrf.Secret c) (ID c) ''POST''"

definition csrf_Error :: "csrf \<Rightarrow> ResponseWriter \<Rightarrow> ResponseWriter option" where
  "csrf_Error c rw = (case csrf.ErrorFunc c of None \<Rightarrow> None | Some f \<Rightarrow> Some (f rw))"

text \<open>
  The interface \<^verbatim>\<open>CSRF\<close>, a value with its methods. \<open>Error\<close> yields \<open>None\<close> when the call
  panics; \<^verbatim>\<open>(*csrf).Error\<close> does so when \<^verbatim>\<open>ErrorFunc\<close> is \<^verbatim>\<open>nil\<close>.
\<close>

record CSRF =
  GetHeaderName :: string
  GetFormName :: string
  GetCookieName :: string
  GetCookiePath :: string
  GetCookieHttpOnly :: bool
  GetToken :: string
  ValidToken :: "string \<Rightarrow> bool"
  Error :: "ResponseWriter \<Rightarrow> ResponseWriter option"

text \<open>A \<^verbatim>\<open>*csrf\<close> as a \<^verbatim>\<open>CSRF\<close>, over the package function \<open>validToken\<close>.\<close>

definition csrf_as_CSRF :: "(string \<Rightarrow> string \<Rightarrow> string \<Rightarrow> string \<Rightarrow> bool) \<Rightarrow> csrf \<Rightarrow> CSRF" where
  "csrf_as_CSRF validToken c =
     \<lparr>GetHeaderName = csrf_GetHeaderName c, GetFormName = csrf_GetFormName c,
      GetCookieName = csrf_GetCookieName c, GetCookiePath = csrf_GetCookiePath c,
      GetCookieHttpOnly = csrf_GetCookieHttpOnly c, GetToken = csrf_GetToken c,
      CSRF.ValidToken = csrf_ValidToken validToken c, Error = csrf_Error c\<rparr>"

section \<open>Validate\<close>

text \<open>
  Lines 278-285, and again 289-296: clear the cookie, call \<^verbatim>\<open>x.Error(w)\<close>, return.
  The cookie literal sets \<^verbatim>\<open>Name\<close>, \<^verbatim>\<open>Value\<close> and \<^verbatim>\<open>Path\<close>; the other fields are zero.
\<close>

definition Validate_reject :: "CSRF \<Rightarrow> world \<Rightarrow> outcome \<times> world" where
  "Validate_reject x s =
     (let cookie = \<lparr>Name = GetCookieName x, Value = [], Path = GetCookiePath x, Domain = [],
                     Expires = None, http_Cookie.Secure = False, HttpOnly = False\<rparr>;
          s = s\<lparr>w := http_SetCookie (w s) cookie\<rparr>
      in case Error x (w s) of
           None \<Rightarrow> (Panicked NilFuncCall, s)
         | Some rw \<Rightarrow> (Return, s\<lparr>w := rw\<rparr>))"

text \<open>The handler that \<^verbatim>\<open>Validate(next, x)\<close> returns, lines 275-304.\<close>

definition Validate :: "CSRF \<Rightarrow> Request \<Rightarrow> world \<Rightarrow> outcome \<times> world" where
  "Validate x r s =
     (let token = Header_Get r (GetHeaderName x)
      in if length token > 0 then
           (if \<not> CSRF.ValidToken x token then Validate_reject x s else (Forward r, s))
         else
           (let (token, s) = FormValue r (GetFormName x) s
            in if length token > 0 then
                 (if \<not> CSRF.ValidToken x token then Validate_reject x s else (Forward r, s))
               else
                 (Return,
                  s\<lparr>w := http_Error (w s) ''Bad Request: no CSRF token present''
                            StatusBadRequest\<rparr>)))"

section \<open>Token authority\<close>

text \<open>
  The package functions \<^verbatim>\<open>GenerateToken\<close> and \<^verbatim>\<open>ValidToken\<close> are declared outside the sources
  at hand. The spec (4.1) calls them \<open>derive\<close> and \<open>verify\<close>; of \<open>derive\<close> it fixes only
  that it is a function of the secret, the identity and the action class, so \<open>derive\<close> is a
  parameter here, and \<open>verify\<close> is written after the spec's words.
\<close>

text \<open>
  Modelled from the spec: the loop of the constant-time comparison inside the missing
  \<^verbatim>\<open>ValidToken\<close>. It visits every position and accumulates the differences of the bytes,
  without leaving early.
\<close>

fun accumulate_diff :: "8 word \<Rightarrow> string \<Rightarrow> string \<Rightarrow> 8 word" where
  "accumulate_diff v (a # x) (b # y) = accumulate_diff (v OR (of_char a XOR of_char b)) x y"
| "accumulate_diff v x y = v"

text \<open>
  Modelled from the spec: the constant-time comparison of the missing \<^verbatim>\<open>ValidToken\<close>, false
  on a length mismatch, otherwise true when the accumulated difference is zero.
\<close>

definition constant_time_compare :: "string \<Rightarrow> string \<Rightarrow> bool" where
  "constant_time_compare x y =
     (if length x \<noteq> length y then False else accumulate_diff 0 x y = 0)"

text \<open>
  Modelled from the spec: the number of steps of the comparison loop of the missing
  \<^verbatim>\<open>ValidToken\<close>, one for each iteration.
\<close>

fun T_accumulate_diff :: "string \<Rightarrow> string \<Rightarrow> nat" where
  "T_accumulate_diff (a # x) (b # y) = 1 + T_accumulate_diff x y"
| "T_accumulate_diff x y = 0"

text \<open>
  Modelled from the spec: the number of byte steps of the constant-time comparison of the
  missing \<^verbatim>\<open>ValidToken\<close>.
\<close>

definition T_constant_time_compare :: "string \<Rightarrow> string \<Rightarrow> nat" where
  "T_constant_time_compare x y = (if length x \<noteq> length y then 0 else T_accumulate_diff x y)"

text \<open>
  Modelled from the spec: \<open>verify(candidateToken, secret, identity, actionClass)\<close>, the
  package function \<^verbatim>\<open>ValidToken\<close> missing from the sources. It recomputes
  \<open>derive(secret, identity, actionClass)\<close> (the missing \<^verbatim>\<open>GenerateToken\<close>) and compares the
  candidate with it.
\<close>

definition verify ::
  "(string \<Rightarrow> string \<Rightarrow> string \<Rightarrow> string) \<Rightarrow> string \<Rightarrow> string \<Rightarrow> string \<Rightarrow> string \<Rightarrow> bool" where
  "verify derive candidateToken secret identity actionClass =
     constant_time_compare candidateToken (derive secret identity actionClass)"

text \<open>
  Modelled from the spec: the byte steps that \<open>verify\<close>, the missing \<^verbatim>\<open>ValidToken\<close>, spends
  on its comparison.
\<close>

definition T_verify ::
  "(string \<Rightarrow> string \<Rightarrow> string \<Rightarrow> string) \<Rightarrow> string \<Rightarrow> string \<Rightarrow> string \<Rightarrow> string \<Rightarrow> nat" where
  "T_verify derive candidateToken secret identity actionClass =
     T_constant_time_compare candidateToken (derive secret identity actionClass)"

section \<open>Observations and sample values\<close>

text \<open>The identity that lines 223-227 leave in \<^verbatim>\<open>x.ID\<close>.\<close>

definition resolve_ID :: "Options \<Rightarrow> world \<Rightarrow> string" where
  "resolve_ID opt s =
     (case store s (SessionKey opt) of None \<Rightarrow> ''0'' | Some uid \<Rightarrow> Sprintf_s uid)"

text \<open>
  The token a downstream handler reads from the request it is handed:
  \<^verbatim>\<open>r.Context().Value("CsrfToken")\<close>, when the request was forwarded and the value is a string.
\<close>

definition ctx_token :: "outcome \<Rightarrow> string option" where
  "ctx_token out =
     (case out of
        Forward r \<Rightarrow>
          (case req_Context r ''CsrfToken'' of Some (CString tok) \<Rightarrow> Some tok | _ \<Rightarrow> None)
      | _ \<Rightarrow> None)"

text \<open>
  Sample values for the concrete instances below: a derivation function to stand for the
  parameter, a request with no headers, cookies, form fields or context values, and a
  world with an empty session and an untouched response.
\<close>

definition example_derive :: "string \<Rightarrow> string \<Rightarrow> string \<Rightarrow> string" where
  "example_derive secret identity actionClass = secret @ '':'' @ identity @ '':'' @ actionClass"

definition no_Request :: Request where
  "no_Request =
     \<lparr>req_Header = Map.empty, req_Cookie = Map.empty, req_Form = Map.empty,
      req_Context = Map.empty\<rparr>"

definition fresh_world :: world where
  "fresh_world = \<lparr>store = Map.empty, w = [], calls = []\<rparr>"

text \<open>
  The \<^verbatim>\<open>csrf\<close> value that the \<open>Generate\<close> handler builds from the default options with the
  secret \<open>secret\<close>, for the anonymous identity, and the same as a \<^verbatim>\<open>CSRF\<close> over the sample
  token functions.
\<close>

definition example_csrf :: csrf where
  "example_csrf =
     \<lparr>csrf.Header = ''X-CSRFToken'', csrf.Form = ''_csrf'', csrf.Cookie = ''_csrf'',
      csrf.CookieDomain = [], csrf.CookiePath = ''/'', csrf.CookieHttpOnly = False,
      Token = [], ID = ''0'', csrf.Secret = ''secret'',
      csrf.ErrorFunc = Options.ErrorFunc (prepareOptions ''secret'' [])\<rparr>"

definition example_CSRF :: CSRF where
  "example_CSRF = csrf_as_CSRF (verify example_derive) example_csrf"

section \<open>Facts about the token authority\<close>

lemma unat_of_char8: "unat (of_char c :: 8 word) = of_char c"
proof -
  have "unat (of_nat (of_char c) :: 8 word) = of_char c mod 2 ^ LENGTH(8)"
    by (rule unat_of_nat)
  then show ?thesis by (simp add: of_nat_of_char)
qed

lemma of_char_word8_inj: "(of_char a :: 8 word) = of_char b \<longleftrightarrow> a = b"
proof
  assume "(of_char a :: 8 word) = of_char b"
  then have "unat (of_char a :: 8 word) = unat (of_char b :: 8 word)" by simp
  then show "a = b" by (simp add: unat_of_char8)
qed simp

lemma xor_zero8: "(a :: 8 word) XOR b = 0 \<longleftrightarrow> a = b"
  by (metis bit.xor_left_self xor.right_neutral)

lemma accumulate_diff_zero:
  "length x = length y \<Longrightarrow> accumulate_diff v x y = 0 \<longleftrightarrow> v = 0 \<and> x = y"
proof (induction v x y rule: accumulate_diff.induct)
  case (1 v a x b y)
  then show ?case by (auto simp: or_eq_0_iff of_char_word8_inj xor_zero8)
qed auto

lemma T_accumulate_diff_length: "length x = length y \<Longrightarrow> T_accumulate_diff x y = length x"
  by (induction x y rule: T_accumulate_diff.induct) auto

lemma verify_iff: "verify derive t s i a \<longleftrightarrow> t = derive s i a"
  by (auto simp: verify_def constant_time_compare_def accumulate_diff_zero)

text \<open>
  C3. Verifying the token that \<open>derive\<close> produces, against the same secret, identity and
  action class, succeeds, whatever the three inputs are; so the method
  \<^verbatim>\<open>(*csrf).ValidToken\<close> accepts the token derived for its own secret and ID under the
  action class \<^verbatim>\<open>"POST"\<close>.
\<close>

theorem verify_accepts_derived:
  "verify derive (derive secret identity actionClass) secret identity actionClass
   \<and> csrf_ValidToken (verify derive) c (derive (csrf.Secret c) (ID c) ''POST'')"
  by (simp add: verify_iff csrf_ValidToken_def)

text \<open>
  C9. \<open>verify\<close> recomputes \<open>derive(secret, identity, actionClass)\<close> and accepts the
  candidate exactly when it has the same length and the same bytes: every mismatch, a
  length mismatch included, is refused. The comparison is the constant-time one: it spends
  one step on every byte when the lengths agree, wherever the first difference is, so its
  cost depends on the lengths alone. \<^verbatim>\<open>(*csrf).ValidToken\<close> is that check for the secret and ID
  of the receiver under \<^verbatim>\<open>"POST"\<close>.
\<close>

theorem verify_constant_time_equality:
  "verify derive candidateToken secret identity actionClass =
     (length candidateToken = length (derive secret identity actionClass) \<and>
      candidateToken = derive secret identity actionClass)
   \<and> T_verify derive candidateToken secret identity actionClass =
     (if length candidateToken = length (derive secret identity actionClass)
      then length candidateToken else 0)
   \<and> csrf_ValidToken (verify derive) c candidateToken =
     (candidateToken = derive (csrf.Secret c) (ID c) ''POST'')"
  by (auto simp: verify_iff T_verify_def T_constant_time_compare_def T_accumulate_diff_length
      csrf_ValidToken_def)

section \<open>Facts about prepareOptions and the Generate handler\<close>

lemma prepareOptions_oldSeesionKey:
  "oldSeesionKey (prepareOptions rnd options) = ''_old_'' @ SessionKey (prepareOptions rnd options)"
  by (simp add: prepareOptions_def Let_def)

lemma prepareOptions_Origin:
  "Origin (prepareOptions rnd options) = (0 < length options \<and> Origin (options ! 0))"
  by (simp add: prepareOptions_def Let_def zero_Options_def)

lemma Generate_publish_new:
  \<open>Generate_publish G opt r x True s =
     (Forward (r\<lparr>req_Context := (req_Context r)
         (''CsrfToken'' \<mapsto> CString (G (csrf.Secret x) (ID x) ''POST''),
          ''CsrfTokenHtml'' \<mapsto> CHTML (''<input type="hidden" name="_csrf" value="'' @
                                        G (csrf.Secret x) (ID x) ''POST'' @ ''">''))\<rparr>),
      s\<lparr>w := w s @
              (if SetCookie opt
               then [W_SetCookie (session_NewCookie (Options.Cookie opt)
                       (G (csrf.Secret x) (ID x) ''POST'') (Options.CookiePath opt)
                       (Options.CookieDomain opt) (Options.Secure opt)
                       (Options.CookieHttpOnly opt) (AddDate Now 0 0 1))]
               else []) @
              (if SetHeader opt
               then [W_HeaderAdd (Options.Header opt) (G (csrf.Secret x) (ID x) ''POST'')]
               else []),
        calls := calls s @ [Call_GenerateToken (csrf.Secret x) (ID x) ''POST'']\<rparr>)\<close>
  by (simp add: Generate_publish_def call_GenerateToken_def http_SetCookie_def Header_Add_def
      Let_def)

lemma Generate_publish_reuse:
  \<open>Generate_publish G opt r x False s =
     (Forward (r\<lparr>req_Context := (req_Context r)
         (''CsrfToken'' \<mapsto> CString (Token x),
          ''CsrfTokenHtml'' \<mapsto> CHTML (''<input type="hidden" name="_csrf" value="'' @
                                        Token x @ ''">''))\<rparr>),
      s\<lparr>w := w s @
              (if SetHeader opt then [W_HeaderAdd (Options.Header opt) (Token x)] else [])\<rparr>)\<close>
  by (simp add: Generate_publish_def Header_Add_def Let_def)

lemma Generate_handler_bypass:
  "Origin opt \<Longrightarrow> Header_Get r ''Origin'' \<noteq> [] \<Longrightarrow>
   Generate_handler G opt r s = (Forward r, s\<lparr>calls := calls s @ [Call_GetSession]\<rparr>)"
  by (simp add: Generate_handler_def session_GetSession_def Let_def)

lemma Generate_handler_panic:
  "\<not> (Origin opt \<and> 0 < length (Header_Get r ''Origin'')) \<Longrightarrow>
   store s (oldSeesionKey opt) = Some (VOther shown) \<Longrightarrow>
   Generate_handler G opt r s =
     (Panicked TypeAssertion,
      s\<lparr>calls := calls s @ [Call_GetSession, Call_sess_Get (SessionKey opt),
                              Call_sess_Get (oldSeesionKey opt)]\<rparr>)"
  by (simp add: Generate_handler_def session_GetSession_def sess_Get_def Let_def)

lemma Generate_handler_rotate:
  assumes "\<not> (Origin opt \<and> 0 < length (Header_Get r ''Origin''))"
    and "store s (oldSeesionKey opt) = None \<or>
         (\<exists>old. store s (oldSeesionKey opt) = Some (VString old) \<and> old \<noteq> resolve_ID opt s)"
  shows "Generate_handler G opt r s =
     Generate_publish G opt r
       \<lparr>csrf.Header = Options.Header opt, csrf.Form = Options.Form opt,
        csrf.Cookie = Options.Cookie opt, csrf.CookieDomain = Options.CookieDomain opt,
        csrf.CookiePath = Options.CookiePath opt,
        csrf.CookieHttpOnly = Options.CookieHttpOnly opt,
        Token = [], ID = resolve_ID opt s, csrf.Secret = Options.Secret opt,
        csrf.ErrorFunc = Options.ErrorFunc opt\<rparr>
       True
       (s\<lparr>store := (store s)(oldSeesionKey opt \<mapsto> VString (resolve_ID opt s)),
          calls := calls s @ [Call_GetSession, Call_sess_Get (SessionKey opt),
                              Call_sess_Get (oldSeesionKey opt),
                              Call_sess_Set (oldSeesionKey opt) (resolve_ID opt s)]\<rparr>)"
  using assms
  by (auto simp add: Generate_handler_def session_GetSession_def sess_Get_def sess_Set_def
      resolve_ID_def Let_def split: option.splits)

lemma Generate_handler_same:
  assumes "\<not> (Origin opt \<and> 0 < length (Header_Get r ''Origin''))"
    and "store s (oldSeesionKey opt) = Some (VString (resolve_ID opt s))"
  shows "Generate_handler G opt r s =
     Generate_publish G opt r
       \<lparr>csrf.Header = Options.Header opt, csrf.Form = Options.Form opt,
        csrf.Cookie = Options.Cookie opt, csrf.CookieDomain = Options.CookieDomain opt,
        csrf.CookiePath = Options.CookiePath opt,
        csrf.CookieHttpOnly = Options.CookieHttpOnly opt,
        Token = cookie_of r (Options.Cookie opt), ID = resolve_ID opt s,
        csrf.Secret = Options.Secret opt, csrf.ErrorFunc = Options.ErrorFunc opt\<rparr>
       (cookie_of r (Options.Cookie opt) = [])
       (s\<lparr>calls := calls s @ [Call_GetSession, Call_sess_Get (SessionKey opt),
                              Call_sess_Get (oldSeesionKey opt),
                              Call_GetCookie (Options.Cookie opt)]\<rparr>)"
  using assms
  by (auto simp add: Generate_handler_def session_GetSession_def sess_Get_def
      session_GetCookie_def resolve_ID_def Let_def split: option.splits)

lemma Generate_handler_cases:
  assumes nb: "\<not> (Origin opt \<and> 0 < length (Header_Get r ''Origin''))"
    and str: "\<forall>shown. store s (oldSeesionKey opt) \<noteq> Some (VOther shown)"
  shows \<open>Generate_handler G opt r s =
    (if store s (oldSeesionKey opt) \<noteq> Some (VString (resolve_ID opt s)) then
       (Forward (r\<lparr>req_Context := (req_Context r)
           (''CsrfToken'' \<mapsto> CString (G (Options.Secret opt) (resolve_ID opt s) ''POST''),
            ''CsrfTokenHtml'' \<mapsto> CHTML (''<input type="hidden" name="_csrf" value="'' @
                    G (Options.Secret opt) (resolve_ID opt s) ''POST'' @ ''">''))\<rparr>),
        s\<lparr>store := (store s)(oldSeesionKey opt \<mapsto> VString (resolve_ID opt s)),
          w := w s @
              (if SetCookie opt
               then [W_SetCookie (session_NewCookie (Options.Cookie opt)
                       (G (Options.Secret opt) (resolve_ID opt s) ''POST'') (Options.CookiePath opt)
                       (Options.CookieDomain opt) (Options.Secure opt)
                       (Options.CookieHttpOnly opt) (AddDate Now 0 0 1))]
               else []) @
              (if SetHeader opt
               then [W_HeaderAdd (Options.Header opt) (G (Options.Secret opt) (resolve_ID opt s) ''POST'')]
               else []),
          calls := calls s @ [Call_GetSession, Call_sess_Get (SessionKey opt),
                              Call_sess_Get (oldSeesionKey opt),
                              Call_sess_Set (oldSeesionKey opt) (resolve_ID opt s),
                              Call_GenerateToken (Options.Secret opt) (resolve_ID opt s) ''POST'']\<rparr>)
     else if cookie_of r (Options.Cookie opt) = [] then
       (Forward (r\<lparr>req_Context := (req_Context r)
           (''CsrfToken'' \<mapsto> CString (G (Options.Secret opt) (resolve_ID opt s) ''POST''),
            ''CsrfTokenHtml'' \<mapsto> CHTML (''<input type="hidden" name="_csrf" value="'' @
                    G (Options.Secret opt) (resolve_ID opt s) ''POST'' @ ''">''))\<rparr>),
        s\<lparr>w := w s @
              (if SetCookie opt
               then [W_SetCookie (session_NewCookie (Options.Cookie opt)
                       (G (Options.Secret opt) (resolve_ID opt s) ''POST'') (Options.CookiePath opt)
                       (Options.CookieDomain opt) (Options.Secure opt)
                       (Options.CookieHttpOnly opt) (AddDate Now 0 0 1))]
               else []) @
              (if SetHeader opt
               then [W_HeaderAdd (Options.Header opt) (G (Options.Secret opt) (resolve_ID opt s) ''POST'')]
               else []),
          calls := calls s @ [Call_GetSession, Call_sess_Get (SessionKey opt),
                              Call_sess_Get (oldSeesionKey opt),
                              Call_GetCookie (Options.Cookie opt),
                              Call_GenerateToken (Options.Secret opt) (resolve_ID opt s) ''POST'']\<rparr>)
     else
       (Forward (r\<lparr>req_Context := (req_Context r)
           (''CsrfToken'' \<mapsto> CString (cookie_of r (Options.Cookie opt)),
            ''CsrfTokenHtml'' \<mapsto> CHTML (''<input type="hidden" name="_csrf" value="'' @
                    cookie_of r (Options.Cookie opt) @ ''">''))\<rparr>),
        s\<lparr>w := w s @
              (if SetHeader opt
               then [W_HeaderAdd (Options.Header opt) (cookie_of r (Options.Cookie opt))]
               else []),
          calls := calls s @ [Call_GetSession, Call_sess_Get (SessionKey opt),
                              Call_sess_Get (oldSeesionKey opt),
                              Call_GetCookie (Options.Cookie opt)]\<rparr>))\<close>
proof (cases "store s (oldSeesionKey opt) = Some (VString (resolve_ID opt s))")
  case True
  show ?thesis
    by (simp add: True Generate_handler_same [OF nb True] Generate_publish_new
        Generate_publish_reuse)
next
  case False
  have "store s (oldSeesionKey opt) = None \<or>
         (\<exists>old. store s (oldSeesionKey opt) = Some (VString old) \<and> old \<noteq> resolve_ID opt s)"
  proof (cases "store s (oldSeesionKey opt)")
    case None
    then show ?thesis by simp
  next
    case (Some v)
    with str False show ?thesis by (cases v) auto
  qed
  from Generate_handler_rotate [OF nb this] False show ?thesis
    by (simp add: Generate_publish_new)
qed

text \<open>
  Two requests in a row. When the first request was answered off the bypass path and the
  second brings back, as its cookie, the token the first one published, the second reuses
  that token: the identity is unchanged, the previous-identity slot now holds it, and
  nothing is derived or stored.
\<close>

lemma second_request_reuses:
  assumes opt: "opt = prepareOptions rnd options"
    and nb1: "\<not> (Origin opt \<and> 0 < length (Header_Get r1 ''Origin''))"
    and nb2: "\<not> (Origin opt \<and> 0 < length (Header_Get r2 ''Origin''))"
    and str: "\<forall>shown. store s (oldSeesionKey opt) \<noteq> Some (VOther shown)"
    and req1: "(out1, s1) = Generate G rnd options r1 s"
    and tok: "ctx_token out1 = Some tok1"
    and sent: "cookie_of r2 (Options.Cookie opt) = tok1"
    and ne: "tok1 \<noteq> []"
  shows "ctx_token (fst (Generate G rnd options r2 s1)) = Some tok1 \<and>
         store (snd (Generate G rnd options r2 s1)) = store s1 \<and>
         calls (snd (Generate G rnd options r2 s1)) =
           calls s1 @ [Call_GetSession, Call_sess_Get (SessionKey opt),
                       Call_sess_Get (oldSeesionKey opt), Call_GetCookie (Options.Cookie opt)]"
proof -
  have old: "oldSeesionKey opt = ''_old_'' @ SessionKey opt"
    using opt by (simp add: prepareOptions_oldSeesionKey)
  then have neq: "oldSeesionKey opt \<noteq> SessionKey opt"
    by (metis append_self_conv2 list.distinct(1))
  have run1: "(out1, s1) = Generate_handler G opt r1 s"
    using opt req1 by (simp only: Generate_def)
  have s1_old: "store s1 (oldSeesionKey opt) = Some (VString (resolve_ID opt s))"
    and s1_key: "store s1 (SessionKey opt) = store s (SessionKey opt)"
    using run1 neq unfolding Generate_handler_cases [OF nb1 str]
    by (auto split: if_splits)
  have id: "resolve_ID opt s1 = resolve_ID opt s"
    by (simp add: resolve_ID_def s1_key)
  have str1: "\<forall>shown. store s1 (oldSeesionKey opt) \<noteq> Some (VOther shown)"
    by (simp add: s1_old)
  have "Generate G rnd options r2 s1 = Generate_handler G opt r2 s1"
    using opt by (simp only: Generate_def)
  then show ?thesis
    unfolding Generate_handler_cases [OF nb2 str1]
    by (simp add: s1_old id sent ne ctx_token_def)
qed

section \<open>The issuance middleware\<close>

text \<open>
  C1, as stated, fails on the code. With a value that is not a string in the
  previous-identity slot (here the integer 42, which \<^verbatim>\<open>%s\<close> prints as \<^verbatim>\<open>%!s(int=42)\<close>), the
  previous identity is present and differs from the current identity \<^verbatim>\<open>"0"\<close>, and yet no
  token is derived and none is reused: the handler panics after the two session reads.
\<close>

theorem rotation_decision_counterexample:
  "store (fresh_world\<lparr>store := [''_old_uid'' \<mapsto> VOther ''%!s(int=42)'']\<rparr>) ''_old_uid''
     = Some (VOther ''%!s(int=42)'') \<and>
   resolve_ID (prepareOptions ''secret'' [])
     (fresh_world\<lparr>store := [''_old_uid'' \<mapsto> VOther ''%!s(int=42)'']\<rparr>) = ''0'' \<and>
   fst (Generate example_derive ''secret'' [] no_Request
          (fresh_world\<lparr>store := [''_old_uid'' \<mapsto> VOther ''%!s(int=42)'']\<rparr>))
     = Panicked TypeAssertion \<and>
   calls (snd (Generate example_derive ''secret'' [] no_Request
          (fresh_world\<lparr>store := [''_old_uid'' \<mapsto> VOther ''%!s(int=42)'']\<rparr>)))
     = [Call_GetSession, Call_sess_Get ''uid'', Call_sess_Get ''_old_uid''] \<and>
   ctx_token (fst (Generate example_derive ''secret'' [] no_Request
          (fresh_world\<lparr>store := [''_old_uid'' \<mapsto> VOther ''%!s(int=42)'']\<rparr>)))
     = None"
  by (simp add: Generate_def Generate_handler_def prepareOptions_def zero_Options_def Let_def
      Header_Get_def no_Request_def fresh_world_def session_GetSession_def sess_Get_def
      resolve_ID_def ctx_token_def)

text \<open>
  C1, amended. Off the bypass path, and with the previous-identity slot absent or holding a
  string, the handler decides as follows. If the previous identity is absent or differs
  from the current one, the current identity is stored in the previous-identity slot and
  a new token is derived. If it matches and the inbound cookie is absent or empty, a new
  token is derived and the session is left alone. Otherwise no token is derived and the
  non-empty cookie value is the token of the request.
\<close>

theorem rotation_decision:
  assumes "opt = prepareOptions rnd options"
    and "\<not> (Origin opt \<and> 0 < length (Header_Get r ''Origin''))"
    and "\<forall>shown. store s (oldSeesionKey opt) \<noteq> Some (VOther shown)"
    and "identity = resolve_ID opt s"
    and "cookie = cookie_of r (Options.Cookie opt)"
    and "(out, s') = Generate G rnd options r s"
  shows "if store s (oldSeesionKey opt) \<noteq> Some (VString identity) then
           calls s' = calls s @ [Call_GetSession, Call_sess_Get (SessionKey opt),
                                 Call_sess_Get (oldSeesionKey opt),
                                 Call_sess_Set (oldSeesionKey opt) identity,
                                 Call_GenerateToken (Options.Secret opt) identity ''POST''] \<and>
           store s' = (store s)(oldSeesionKey opt \<mapsto> VString identity) \<and>
           ctx_token out = Some (G (Options.Secret opt) identity ''POST'')
         else if cookie = [] then
           calls s' = calls s @ [Call_GetSession, Call_sess_Get (SessionKey opt),
                                 Call_sess_Get (oldSeesionKey opt),
                                 Call_GetCookie (Options.Cookie opt),
                                 Call_GenerateToken (Options.Secret opt) identity ''POST''] \<and>
           store s' = store s \<and>
           ctx_token out = Some (G (Options.Secret opt) identity ''POST'')
         else
           calls s' = calls s @ [Call_GetSession, Call_sess_Get (SessionKey opt),
                                 Call_sess_Get (oldSeesionKey opt),
                                 Call_GetCookie (Options.Cookie opt)] \<and>
           store s' = store s \<and>
           ctx_token out = Some cookie"
proof -
  have "(out, s') = Generate_handler G opt r s"
    using assms(1,6) by (simp only: Generate_def)
  then show ?thesis
    unfolding Generate_handler_cases [OF assms(2,3)] assms(4,5)
    by (simp add: ctx_token_def split: if_splits)
qed

theorem rotation_decision_witness:
  "\<not> (Origin (prepareOptions ''secret'' []) \<and> 0 < length (Header_Get (no_Request\<lparr>req_Cookie := [''_csrf'' \<mapsto> ''tok1'']\<rparr>) ''Origin'')) \<and>
   (\<forall>shown. store (fresh_world\<lparr>store := [''uid'' \<mapsto> VString ''alice'', ''_old_uid'' \<mapsto> VString ''alice'']\<rparr>)
       (oldSeesionKey (prepareOptions ''secret'' [])) \<noteq> Some (VOther shown)) \<and>
   calls (snd (Generate example_derive ''secret'' [] (no_Request\<lparr>req_Cookie := [''_csrf'' \<mapsto> ''tok1'']\<rparr>)
      (fresh_world\<lparr>store := [''uid'' \<mapsto> VString ''alice'', ''_old_uid'' \<mapsto> VString ''alice'']\<rparr>)))
    = [Call_GetSession, Call_sess_Get ''uid'', Call_sess_Get ''_old_uid'', Call_GetCookie ''_csrf''] \<and>
   ctx_token (fst (Generate example_derive ''secret'' [] (no_Request\<lparr>req_Cookie := [''_csrf'' \<mapsto> ''tok1'']\<rparr>)
      (fresh_world\<lparr>store := [''uid'' \<mapsto> VString ''alice'', ''_old_uid'' \<mapsto> VString ''alice'']\<rparr>)))
    = Some ''tok1''"
  using rotation_decision [of "prepareOptions ''secret'' []" "''secret''" "[]"
      "no_Request\<lparr>req_Cookie := [''_csrf'' \<mapsto> ''tok1'']\<rparr>"
      "fresh_world\<lparr>store := [''uid'' \<mapsto> VString ''alice'', ''_old_uid'' \<mapsto> VString ''alice'']\<rparr>"
      "''alice''" "''tok1''"
      "fst (Generate example_derive ''secret'' [] (no_Request\<lparr>req_Cookie := [''_csrf'' \<mapsto> ''tok1'']\<rparr>)
      (fresh_world\<lparr>store := [''uid'' \<mapsto> VString ''alice'', ''_old_uid'' \<mapsto> VString ''alice'']\<rparr>))"
      "snd (Generate example_derive ''secret'' [] (no_Request\<lparr>req_Cookie := [''_csrf'' \<mapsto> ''tok1'']\<rparr>)
      (fresh_world\<lparr>store := [''uid'' \<mapsto> VString ''alice'', ''_old_uid'' \<mapsto> VString ''alice'']\<rparr>))"
      example_derive]
  by (simp add: prepareOptions_def zero_Options_def Let_def Header_Get_def no_Request_def
      fresh_world_def resolve_ID_def cookie_of_def)

text \<open>
  C2, as stated, fails on the code. When the previous identity matches, the handler takes the
  inbound cookie as the token without checking it: a request that brings the cookie value
  \<^verbatim>\<open>forged\<close> gets \<^verbatim>\<open>forged\<close> as its token, which is not what the derivation yields for the
  secret and the identity.
\<close>

theorem published_token_counterexample:
  "ctx_token (fst (Generate example_derive ''secret'' []
          (no_Request\<lparr>req_Cookie := [''_csrf'' \<mapsto> ''forged'']\<rparr>)
          (fresh_world\<lparr>store := [''_old_uid'' \<mapsto> VString ''0'']\<rparr>)))
     = Some ''forged'' \<and>
   resolve_ID (prepareOptions ''secret'' [])
     (fresh_world\<lparr>store := [''_old_uid'' \<mapsto> VString ''0'']\<rparr>) = ''0'' \<and>
   Options.Secret (prepareOptions ''secret'' []) = ''secret'' \<and>
   example_derive ''secret'' ''0'' ''POST'' \<noteq> ''forged''"
  by (simp add: Generate_def Generate_handler_def Generate_publish_def prepareOptions_def
      zero_Options_def Let_def Header_Get_def no_Request_def fresh_world_def
      session_GetSession_def sess_Get_def session_GetCookie_def cookie_of_def ctx_token_def
      resolve_ID_def example_derive_def)

text \<open>
  C2, amended. Every cookie the handler writes carries the token derived from the secret,
  the resolved identity and \<^verbatim>\<open>"POST"\<close>. Off the bypass path the token in the context is that
  derived token too, except when the previous identity matches and the inbound cookie is
  not empty: then it is the inbound cookie value, as received.
\<close>

theorem published_token_origin:
  assumes "opt = prepareOptions rnd options"
    and "identity = resolve_ID opt s"
    and "(out, s') = Generate G rnd options r s"
  shows "(\<exists>new. w s' = w s @ new \<and>
            (\<forall>c. W_SetCookie c \<in> set new \<longrightarrow> Value c = G (Options.Secret opt) identity ''POST''))
       \<and> (\<not> (Origin opt \<and> 0 < length (Header_Get r ''Origin'')) \<longrightarrow>
            (\<forall>tok. ctx_token out = Some tok \<longrightarrow>
               tok = (if store s (oldSeesionKey opt) = Some (VString identity) \<and>
                         cookie_of r (Options.Cookie opt) \<noteq> []
                      then cookie_of r (Options.Cookie opt)
                      else G (Options.Secret opt) identity ''POST'')))"
proof -
  have run: "(out, s') = Generate_handler G opt r s"
    using assms(1,3) by (simp only: Generate_def)
  show ?thesis
  proof (cases "Origin opt \<and> 0 < length (Header_Get r ''Origin'')")
    case True
    then have "Generate_handler G opt r s = (Forward r, s\<lparr>calls := calls s @ [Call_GetSession]\<rparr>)"
      by (simp add: Generate_handler_bypass)
    with run True show ?thesis by simp
  next
    case nb: False
    show ?thesis
    proof (cases "\<exists>shown. store s (oldSeesionKey opt) = Some (VOther shown)")
      case True
      then obtain shown where "store s (oldSeesionKey opt) = Some (VOther shown)" ..
      from Generate_handler_panic [OF nb this] run show ?thesis
        by (simp add: ctx_token_def)
    next
      case False
      then have str: "\<forall>shown. store s (oldSeesionKey opt) \<noteq> Some (VOther shown)" by simp
      from run show ?thesis
        unfolding Generate_handler_cases [OF nb str] assms(2)
        by (auto simp add: ctx_token_def session_NewCookie_def split: if_splits)
    qed
  qed
qed

theorem published_token_origin_witness:
  "w (snd (Generate example_derive ''secret'' [zero_Options\<lparr>SetCookie := True\<rparr>] no_Request
             fresh_world)) =
     [W_SetCookie (session_NewCookie ''_csrf'' ''secret:0:POST'' ''/'' [] False False
                     (AddDate Now 0 0 1))] \<and>
   Value (session_NewCookie ''_csrf'' ''secret:0:POST'' ''/'' [] False False (AddDate Now 0 0 1)) =
     example_derive ''secret'' ''0'' ''POST'' \<and>
   \<not> (Origin (prepareOptions ''secret'' [zero_Options\<lparr>SetCookie := True\<rparr>]) \<and>
      0 < length (Header_Get no_Request ''Origin'')) \<and>
   ctx_token (fst (Generate example_derive ''secret'' [zero_Options\<lparr>SetCookie := True\<rparr>]
                no_Request fresh_world)) = Some (example_derive ''secret'' ''0'' ''POST'')"
  using published_token_origin [of "prepareOptions ''secret'' [zero_Options\<lparr>SetCookie := True\<rparr>]"
      "''secret''" "[zero_Options\<lparr>SetCookie := True\<rparr>]" "''0''" fresh_world
      "fst (Generate example_derive ''secret'' [zero_Options\<lparr>SetCookie := True\<rparr>] no_Request
             fresh_world)"
      "snd (Generate example_derive ''secret'' [zero_Options\<lparr>SetCookie := True\<rparr>] no_Request
             fresh_world)" example_derive no_Request]
  by (simp add: Generate_def Generate_handler_def Generate_publish_def prepareOptions_def
      zero_Options_def Let_def Header_Get_def no_Request_def fresh_world_def
      session_GetSession_def sess_Get_def sess_Set_def call_GenerateToken_def http_SetCookie_def
      ctx_token_def resolve_ID_def example_derive_def session_NewCookie_def)

text \<open>
  C8, as stated, fails on the code. With a value that is not a string in the
  previous-identity slot the handler panics before it reaches the context: nothing is
  forwarded, so no handler sees a token under \<^verbatim>\<open>"CsrfToken"\<close>.
\<close>

theorem context_exposes_token_counterexample:
  "fst (Generate example_derive ''secret'' [zero_Options\<lparr>SetHeader := True\<rparr>] no_Request
          (fresh_world\<lparr>store := [''uid'' \<mapsto> VString ''alice'',
                                   ''_old_uid'' \<mapsto> VOther ''%!s(bool=true)'']\<rparr>))
     = Panicked TypeAssertion \<and>
   ctx_token (fst (Generate example_derive ''secret'' [zero_Options\<lparr>SetHeader := True\<rparr>]
          no_Request
          (fresh_world\<lparr>store := [''uid'' \<mapsto> VString ''alice'',
                                   ''_old_uid'' \<mapsto> VOther ''%!s(bool=true)'']\<rparr>)))
     = None"
  by (simp add: Generate_def Generate_handler_def prepareOptions_def zero_Options_def Let_def
      Header_Get_def no_Request_def fresh_world_def session_GetSession_def sess_Get_def
      ctx_token_def)

text \<open>
  C8, amended. Off the bypass path, and with the previous-identity slot absent or holding a
  string, the request handed to the next handler is the inbound request with two context
  values added: the token, as a string, under \<^verbatim>\<open>"CsrfToken"\<close>, and under \<^verbatim>\<open>"CsrfTokenHtml"\<close>
  the value \<^verbatim>\<open><input type="hidden" name="_csrf" value="TOKEN">\<close>, of type \<^verbatim>\<open>template.HTML\<close>
  (which templates take as escaped already), with that token as it is in the place of
  \<^verbatim>\<open>TOKEN\<close>.
\<close>

theorem context_exposes_token:
  assumes "opt = prepareOptions rnd options"
    and "\<not> (Origin opt \<and> 0 < length (Header_Get r ''Origin''))"
    and "\<forall>shown. store s (oldSeesionKey opt) \<noteq> Some (VOther shown)"
    and "tok = (if store s (oldSeesionKey opt) = Some (VString (resolve_ID opt s)) \<and>
                   cookie_of r (Options.Cookie opt) \<noteq> []
                then cookie_of r (Options.Cookie opt)
                else G (Options.Secret opt) (resolve_ID opt s) ''POST'')"
  shows \<open>fst (Generate G rnd options r s) =
     Forward (r\<lparr>req_Context := (req_Context r)
        (''CsrfToken'' \<mapsto> CString tok,
         ''CsrfTokenHtml'' \<mapsto>
            CHTML (''<input type="hidden" name="_csrf" value="'' @ tok @ ''">''))\<rparr>)\<close>
proof -
  have "Generate G rnd options r s = Generate_handler G opt r s"
    using assms(1) by (simp only: Generate_def)
  then show ?thesis
    unfolding Generate_handler_cases [OF assms(2,3)] assms(4)
    by simp
qed

theorem context_exposes_token_witness:
  \<open>\<not> (Origin (prepareOptions ''secret'' []) \<and> 0 < length (Header_Get no_Request ''Origin'')) \<and>
   (\<forall>shown. store (fresh_world\<lparr>store := [''uid'' \<mapsto> VString ''alice'']\<rparr>)
       (oldSeesionKey (prepareOptions ''secret'' [])) \<noteq> Some (VOther shown)) \<and>
   fst (Generate example_derive ''secret'' [] no_Request
          (fresh_world\<lparr>store := [''uid'' \<mapsto> VString ''alice'']\<rparr>)) =
     Forward (no_Request\<lparr>req_Context :=
        [''CsrfToken'' \<mapsto> CString ''secret:alice:POST'',
         ''CsrfTokenHtml'' \<mapsto>
            CHTML ''<input type="hidden" name="_csrf" value="secret:alice:POST">'']\<rparr>)\<close>
  using context_exposes_token [of "prepareOptions ''secret'' []" "''secret''" "[]" no_Request
      "fresh_world\<lparr>store := [''uid'' \<mapsto> VString ''alice'']\<rparr>"
      "''secret:alice:POST''" example_derive]
  by (simp add: prepareOptions_def zero_Options_def Let_def Header_Get_def no_Request_def
      fresh_world_def resolve_ID_def cookie_of_def example_derive_def)

text \<open>
  C7. With the \<^verbatim>\<open>Origin\<close> option set and a non-empty \<^verbatim>\<open>Origin\<close> request header, the handler
  hands the request as it is to the next handler. The session store and the response are
  what they were, the context of the request is unchanged, and the only call recorded is
  \<^verbatim>\<open>session.GetSession\<close>, which fetches the store: no \<^verbatim>\<open>sess.Get\<close>, no \<^verbatim>\<open>sess.Set\<close>, no
  \<^verbatim>\<open>GenerateToken\<close>.
\<close>

theorem Origin_bypass_forwards_untouched:
  assumes "0 < length options" and "Origin (options ! 0)" and "Header_Get r ''Origin'' \<noteq> []"
  shows "Generate G rnd options r s = (Forward r, s\<lparr>calls := calls s @ [Call_GetSession]\<rparr>)"
proof -
  have "Origin (prepareOptions rnd options)"
    using assms(1,2) by (simp only: prepareOptions_Origin simp_thms)
  then show ?thesis
    unfolding Generate_def using assms(3) by (rule Generate_handler_bypass)
qed

theorem Origin_bypass_forwards_untouched_witness:
  "0 < length [zero_Options\<lparr>Origin := True\<rparr>] \<and> Origin ([zero_Options\<lparr>Origin := True\<rparr>] ! 0) \<and>
   Header_Get (no_Request\<lparr>req_Header := [''Origin'' \<mapsto> ''https://other.example'']\<rparr>) ''Origin'' \<noteq> [] \<and>
   Generate example_derive ''secret'' [zero_Options\<lparr>Origin := True\<rparr>]
      (no_Request\<lparr>req_Header := [''Origin'' \<mapsto> ''https://other.example'']\<rparr>)
      (fresh_world\<lparr>store := [''_old_uid'' \<mapsto> VOther ''%!s(int=42)'']\<rparr>)
    = (Forward (no_Request\<lparr>req_Header := [''Origin'' \<mapsto> ''https://other.example'']\<rparr>),
       fresh_world\<lparr>store := [''_old_uid'' \<mapsto> VOther ''%!s(int=42)''], calls := [Call_GetSession]\<rparr>)"
  using Origin_bypass_forwards_untouched [of "[zero_Options\<lparr>Origin := True\<rparr>]"
      "no_Request\<lparr>req_Header := [''Origin'' \<mapsto> ''https://other.example'']\<rparr>"
      example_derive "''secret''" "fresh_world\<lparr>store := [''_old_uid'' \<mapsto> VOther ''%!s(int=42)'']\<rparr>"]
  by (simp add: Header_Get_def no_Request_def fresh_world_def)

text \<open>
  C10. Off the bypass path, a value under \<^verbatim>\<open>"_old_" + SessionKey\<close> that is not a string
  makes the handler panic at the type assertion \<^verbatim>\<open>oldUid.(string)\<close>, whatever else the request
  and the session hold: after the two session reads nothing is written, no token is
  derived and the next handler is not called.
\<close>

theorem nonstring_previous_identity_panics:
  assumes "opt = prepareOptions rnd options"
    and "\<not> (Origin opt \<and> 0 < length (Header_Get r ''Origin''))"
    and "store s (''_old_'' @ SessionKey opt) = Some (VOther shown)"
  shows "Generate G rnd options r s =
     (Panicked TypeAssertion,
      s\<lparr>calls := calls s @ [Call_GetSession, Call_sess_Get (SessionKey opt),
                              Call_sess_Get (''_old_'' @ SessionKey opt)]\<rparr>)"
proof -
  have old: "oldSeesionKey opt = ''_old_'' @ SessionKey opt"
    using assms(1) by (simp add: prepareOptions_oldSeesionKey)
  have "store s (oldSeesionKey opt) = Some (VOther shown)"
    using assms(3) by (simp only: old)
  with assms(2) have "Generate_handler G opt r s =
     (Panicked TypeAssertion,
      s\<lparr>calls := calls s @ [Call_GetSession, Call_sess_Get (SessionKey opt),
                              Call_sess_Get (oldSeesionKey opt)]\<rparr>)"
    by (rule Generate_handler_panic)
  moreover have "Generate G rnd options r s = Generate_handler G opt r s"
    by (simp only: Generate_def assms(1))
  ultimately show ?thesis
    by (simp only: old)
qed

theorem nonstring_previous_identity_panics_witness:
  "\<not> (Origin (prepareOptions ''secret'' []) \<and> 0 < length (Header_Get no_Request ''Origin'')) \<and>
   store (fresh_world\<lparr>store := [''uid'' \<mapsto> VString ''alice'', ''_old_uid'' \<mapsto> VOther ''%!s(int=42)'']\<rparr>)
      (''_old_'' @ SessionKey (prepareOptions ''secret'' [])) = Some (VOther ''%!s(int=42)'') \<and>
   Generate example_derive ''secret'' [] no_Request
      (fresh_world\<lparr>store := [''uid'' \<mapsto> VString ''alice'', ''_old_uid'' \<mapsto> VOther ''%!s(int=42)'']\<rparr>) =
     (Panicked TypeAssertion,
      fresh_world\<lparr>store := [''uid'' \<mapsto> VString ''alice'', ''_old_uid'' \<mapsto> VOther ''%!s(int=42)''],
                   calls := [Call_GetSession, Call_sess_Get ''uid'', Call_sess_Get ''_old_uid'']\<rparr>)"
  using nonstring_previous_identity_panics [of "prepareOptions ''secret'' []" "''secret''" "[]" no_Request
      "fresh_world\<lparr>store := [''uid'' \<mapsto> VString ''alice'', ''_old_uid'' \<mapsto> VOther ''%!s(int=42)'']\<rparr>"
      "''%!s(int=42)''" example_derive]
  by (simp add: prepareOptions_def zero_Options_def Let_def Header_Get_def no_Request_def fresh_world_def)

section \<open>The verification middleware\<close>

lemma prepareOptions_default_ErrorFunc:
  "options = [] \<or> Options.ErrorFunc (options ! 0) = None \<Longrightarrow>
   Options.ErrorFunc (prepareOptions rnd options) = Some default_ErrorFunc"
  by (auto simp add: prepareOptions_def Let_def zero_Options_def)

lemma Validate_reject_eq:
  "Validate_reject x s =
     (case Error x (http_SetCookie (w s)
               \<lparr>Name = GetCookieName x, Value = [], Path = GetCookiePath x, Domain = [],
                Expires = None, http_Cookie.Secure = False, HttpOnly = False\<rparr>) of
        None \<Rightarrow> (Panicked NilFuncCall,
                 s\<lparr>w := http_SetCookie (w s)
                     \<lparr>Name = GetCookieName x, Value = [], Path = GetCookiePath x, Domain = [],
                      Expires = None, http_Cookie.Secure = False, HttpOnly = False\<rparr>\<rparr>)
      | Some rw \<Rightarrow> (Return, s\<lparr>w := rw\<rparr>))"
  by (simp add: Validate_reject_def Let_def split: option.splits)

lemma Validate_header:
  "Header_Get r (GetHeaderName x) \<noteq> [] \<Longrightarrow>
   Validate x r s =
     (if \<not> CSRF.ValidToken x (Header_Get r (GetHeaderName x)) then Validate_reject x s
      else (Forward r, s))"
  by (simp add: Validate_def Let_def)

lemma Validate_form:
  "Header_Get r (GetHeaderName x) = [] \<Longrightarrow> form_of r (GetFormName x) \<noteq> [] \<Longrightarrow>
   Validate x r s =
     (if \<not> CSRF.ValidToken x (form_of r (GetFormName x))
      then Validate_reject x (s\<lparr>calls := calls s @ [Call_FormValue (GetFormName x)]\<rparr>)
      else (Forward r, s\<lparr>calls := calls s @ [Call_FormValue (GetFormName x)]\<rparr>))"
  by (simp add: Validate_def FormValue_def Let_def)

lemma Validate_neither:
  "Header_Get r (GetHeaderName x) = [] \<Longrightarrow> form_of r (GetFormName x) = [] \<Longrightarrow>
   Validate x r s =
     (Return,
      s\<lparr>w := w s @ [W_Error ''Bad Request: no CSRF token present'' 400],
        calls := calls s @ [Call_FormValue (GetFormName x)]\<rparr>)"
  by (simp add: Validate_def FormValue_def http_Error_def StatusBadRequest_def Let_def)

lemma Validate_reject_calls: "calls (snd (Validate_reject x s)) = calls s"
  by (simp add: Validate_reject_eq split: option.splits)

lemma Validate_reject_not_Forward: "fst (Validate_reject x s) \<noteq> Forward r'"
  by (simp add: Validate_reject_eq split: option.splits)

text \<open>
  C4. The form field is read exactly when the configured header is absent or empty. A
  non-empty header token that fails verification rejects the request on its own: the
  cookie is cleared, \<^verbatim>\<open>x.Error\<close> is called on the writer, the next handler is not called,
  and the result is the same whatever the form holds, a valid token included.
\<close>

theorem header_checked_before_form:
  "calls (snd (Validate x r s)) =
     (if Header_Get r (GetHeaderName x) = [] then calls s @ [Call_FormValue (GetFormName x)]
      else calls s)
   \<and> (Header_Get r (GetHeaderName x) \<noteq> [] \<and>
        \<not> CSRF.ValidToken x (Header_Get r (GetHeaderName x)) \<longrightarrow>
        (\<forall>r'. fst (Validate x r s) \<noteq> Forward r') \<and>
        (\<forall>form. Validate x (r\<lparr>req_Form := form\<rparr>) s = Validate x r s) \<and>
        w (snd (Validate x r s)) =
          (case Error x (w s @ [W_SetCookie
                   \<lparr>Name = GetCookieName x, Value = [], Path = GetCookiePath x, Domain = [],
                    Expires = None, http_Cookie.Secure = False, HttpOnly = False\<rparr>]) of
             Some rw \<Rightarrow> rw
           | None \<Rightarrow> w s @ [W_SetCookie
                   \<lparr>Name = GetCookieName x, Value = [], Path = GetCookiePath x, Domain = [],
                    Expires = None, http_Cookie.Secure = False, HttpOnly = False\<rparr>]))"
proof -
  have hdr: "Header_Get (r\<lparr>req_Form := form\<rparr>) k = Header_Get r k" for form k
    by (simp add: Header_Get_def)
  have calls: "calls (snd (Validate x r s)) =
     (if Header_Get r (GetHeaderName x) = [] then calls s @ [Call_FormValue (GetFormName x)]
      else calls s)"
  proof (cases "Header_Get r (GetHeaderName x) = []")
    case True
    then show ?thesis
      by (cases "form_of r (GetFormName x) = []")
        (simp_all add: Validate_neither Validate_form Validate_reject_calls)
  next
    case False
    then show ?thesis by (simp add: Validate_header Validate_reject_calls)
  qed
  have rej: "(\<forall>r'. fst (Validate x r s) \<noteq> Forward r') \<and>
        (\<forall>form. Validate x (r\<lparr>req_Form := form\<rparr>) s = Validate x r s) \<and>
        w (snd (Validate x r s)) =
          (case Error x (w s @ [W_SetCookie
                   \<lparr>Name = GetCookieName x, Value = [], Path = GetCookiePath x, Domain = [],
                    Expires = None, http_Cookie.Secure = False, HttpOnly = False\<rparr>]) of
             Some rw \<Rightarrow> rw
           | None \<Rightarrow> w s @ [W_SetCookie
                   \<lparr>Name = GetCookieName x, Value = [], Path = GetCookiePath x, Domain = [],
                    Expires = None, http_Cookie.Secure = False, HttpOnly = False\<rparr>])"
    if "Header_Get r (GetHeaderName x) \<noteq> []"
      and "\<not> CSRF.ValidToken x (Header_Get r (GetHeaderName x))"
    using that
    by (simp add: Validate_header hdr Validate_reject_not_Forward)
       (simp add: Validate_reject_eq http_SetCookie_def split: option.splits)
  from calls rej show ?thesis by blast
qed

theorem header_checked_before_form_witness:
  "Header_Get (no_Request\<lparr>req_Header := [''X-CSRFToken'' \<mapsto> ''secret:0:POST-tampered''],
                          req_Form := [''_csrf'' \<mapsto> ''secret:0:POST'']\<rparr>)
      (GetHeaderName example_CSRF) \<noteq> [] \<and>
   \<not> CSRF.ValidToken example_CSRF ''secret:0:POST-tampered'' \<and>
   CSRF.ValidToken example_CSRF ''secret:0:POST'' \<and>
   Validate example_CSRF
      (no_Request\<lparr>req_Header := [''X-CSRFToken'' \<mapsto> ''secret:0:POST-tampered''],
                   req_Form := [''_csrf'' \<mapsto> ''secret:0:POST'']\<rparr>) fresh_world =
     (Return,
      fresh_world\<lparr>w := [W_SetCookie \<lparr>Name = ''_csrf'', Value = [], Path = ''/'', Domain = [],
                                      Expires = None, http_Cookie.Secure = False,
                                      HttpOnly = False\<rparr>,
                         W_Error ''Invalid csrf token.'' 400]\<rparr>)"
  using header_checked_before_form [of example_CSRF
      "no_Request\<lparr>req_Header := [''X-CSRFToken'' \<mapsto> ''secret:0:POST-tampered''],
                   req_Form := [''_csrf'' \<mapsto> ''secret:0:POST'']\<rparr>" fresh_world]
  by (simp add: Validate_def Validate_reject_def FormValue_def form_of_def Header_Get_def
      http_Error_def http_SetCookie_def StatusBadRequest_def Let_def no_Request_def
      fresh_world_def example_CSRF_def csrf_as_CSRF_def csrf_GetHeaderName_def
      csrf_GetFormName_def csrf_GetCookieName_def csrf_GetCookiePath_def csrf_ValidToken_def
      csrf_Error_def example_csrf_def verify_iff example_derive_def prepareOptions_def
      zero_Options_def default_ErrorFunc_def)

text \<open>
  C5. When the candidate token (the header value if not empty, the form value otherwise) is
  not empty and fails verification, the handler writes a cookie with the configured name,
  the empty value and the configured path, calls \<^verbatim>\<open>x.Error\<close> on the writer that holds that
  cookie, and does not call the next handler. For a \<^verbatim>\<open>csrf\<close> whose \<^verbatim>\<open>ErrorFunc\<close> is the one of
  options prepared without an \<^verbatim>\<open>ErrorFunc\<close>, the call is
  \<^verbatim>\<open>http.Error(w, "Invalid csrf token.", 400)\<close>.
\<close>

theorem invalid_token_rejected:
  assumes "tok = (if Header_Get r (GetHeaderName x) \<noteq> [] then Header_Get r (GetHeaderName x)
                  else form_of r (GetFormName x))"
    and "tok \<noteq> []"
    and "\<not> CSRF.ValidToken x tok"
    and "cleared = http_SetCookie (w s)
           \<lparr>Name = GetCookieName x, Value = [], Path = GetCookiePath x, Domain = [],
            Expires = None, http_Cookie.Secure = False, HttpOnly = False\<rparr>"
  shows "(\<forall>r'. fst (Validate x r s) \<noteq> Forward r') \<and>
         cleared = w s @ [W_SetCookie
           \<lparr>Name = GetCookieName x, Value = [], Path = GetCookiePath x, Domain = [],
            Expires = None, http_Cookie.Secure = False, HttpOnly = False\<rparr>] \<and>
         fst (Validate x r s) =
           (case Error x cleared of Some rw \<Rightarrow> Return | None \<Rightarrow> Panicked NilFuncCall) \<and>
         w (snd (Validate x r s)) =
           (case Error x cleared of Some rw \<Rightarrow> rw | None \<Rightarrow> cleared) \<and>
         (x = csrf_as_CSRF V c \<and>
          csrf.ErrorFunc c = Options.ErrorFunc (prepareOptions rnd options) \<and>
          (options = [] \<or> Options.ErrorFunc (options ! 0) = None) \<longrightarrow>
            fst (Validate x r s) = Return \<and>
            w (snd (Validate x r s)) =
              w s @ [W_SetCookie
                       \<lparr>Name = csrf.Cookie c, Value = [], Path = csrf.CookiePath c, Domain = [],
                        Expires = None, http_Cookie.Secure = False, HttpOnly = False\<rparr>,
                     W_Error ''Invalid csrf token.'' 400])"
proof -
  have rej: "\<exists>s1. Validate x r s = Validate_reject x s1 \<and> w s1 = w s"
  proof (cases "Header_Get r (GetHeaderName x) = []")
    case True
    with assms(1,2,3) show ?thesis
      by (auto simp add: Validate_form intro: exI [of _ "s\<lparr>calls := calls s @ [Call_FormValue (GetFormName x)]\<rparr>"])
  next
    case False
    with assms(1,2,3) show ?thesis
      by (auto simp add: Validate_header)
  qed
  then obtain s1 where s1: "Validate x r s = Validate_reject x s1" "w s1 = w s" by blast
  have general: "(\<forall>r'. fst (Validate x r s) \<noteq> Forward r') \<and>
         fst (Validate x r s) =
           (case Error x cleared of Some rw \<Rightarrow> Return | None \<Rightarrow> Panicked NilFuncCall) \<and>
         w (snd (Validate x r s)) =
           (case Error x cleared of Some rw \<Rightarrow> rw | None \<Rightarrow> cleared)"
    by (simp add: s1 Validate_reject_eq assms(4) split: option.splits)
  have dflt: "x = csrf_as_CSRF V c \<and>
          csrf.ErrorFunc c = Options.ErrorFunc (prepareOptions rnd options) \<and>
          (options = [] \<or> Options.ErrorFunc (options ! 0) = None) \<longrightarrow>
            fst (Validate x r s) = Return \<and>
            w (snd (Validate x r s)) =
              w s @ [W_SetCookie
                       \<lparr>Name = csrf.Cookie c, Value = [], Path = csrf.CookiePath c, Domain = [],
                        Expires = None, http_Cookie.Secure = False, HttpOnly = False\<rparr>,
                     W_Error ''Invalid csrf token.'' 400]"
  proof (intro impI, elim conjE)
    assume that: "x = csrf_as_CSRF V c"
      "csrf.ErrorFunc c = Options.ErrorFunc (prepareOptions rnd options)"
      "options = [] \<or> Options.ErrorFunc (options ! 0) = None"
    have "csrf.ErrorFunc c = Some default_ErrorFunc"
      using that(2,3) by (simp only: prepareOptions_default_ErrorFunc)
    then have "Error x cleared = Some (cleared @ [W_Error ''Invalid csrf token.'' 400])"
      by (simp add: that(1) csrf_as_CSRF_def csrf_Error_def default_ErrorFunc_def
          http_Error_def StatusBadRequest_def)
    moreover have "GetCookieName x = csrf.Cookie c" and "GetCookiePath x = csrf.CookiePath c"
      by (simp_all add: that(1) csrf_as_CSRF_def csrf_GetCookieName_def
          csrf_GetCookiePath_def)
    ultimately show "fst (Validate x r s) = Return \<and>
            w (snd (Validate x r s)) =
              w s @ [W_SetCookie
                       \<lparr>Name = csrf.Cookie c, Value = [], Path = csrf.CookiePath c, Domain = [],
                        Expires = None, http_Cookie.Secure = False, HttpOnly = False\<rparr>,
                     W_Error ''Invalid csrf token.'' 400]"
      using general by (simp add: assms(4) http_SetCookie_def)
  qed
  have shape: "cleared = w s @ [W_SetCookie
           \<lparr>Name = GetCookieName x, Value = [], Path = GetCookiePath x, Domain = [],
            Expires = None, http_Cookie.Secure = False, HttpOnly = False\<rparr>]"
    by (simp only: assms(4) http_SetCookie_def)
  from general have g1: "\<forall>r'. fst (Validate x r s) \<noteq> Forward r'"
    and g2: "fst (Validate x r s) =
           (case Error x cleared of Some rw \<Rightarrow> Return | None \<Rightarrow> Panicked NilFuncCall)"
    and g3: "w (snd (Validate x r s)) =
           (case Error x cleared of Some rw \<Rightarrow> rw | None \<Rightarrow> cleared)"
    by blast+
  show ?thesis
    using g1 shape g2 g3 dflt by (intro conjI) assumption+
qed

theorem invalid_token_rejected_witness:
  "form_of (no_Request\<lparr>req_Form := [''_csrf'' \<mapsto> ''secret:1:POST'']\<rparr>) (GetFormName example_CSRF)
     \<noteq> [] \<and>
   \<not> CSRF.ValidToken example_CSRF ''secret:1:POST'' \<and>
   Validate example_CSRF (no_Request\<lparr>req_Form := [''_csrf'' \<mapsto> ''secret:1:POST'']\<rparr>) fresh_world =
     (Return,
      fresh_world\<lparr>w := [W_SetCookie \<lparr>Name = ''_csrf'', Value = [], Path = ''/'', Domain = [],
                                      Expires = None, http_Cookie.Secure = False,
                                      HttpOnly = False\<rparr>,
                         W_Error ''Invalid csrf token.'' 400],
                   calls := [Call_FormValue ''_csrf'']\<rparr>)"
  using invalid_token_rejected [of "''secret:1:POST''"
      "no_Request\<lparr>req_Form := [''_csrf'' \<mapsto> ''secret:1:POST'']\<rparr>" example_CSRF
      "http_SetCookie (w fresh_world)
           \<lparr>Name = GetCookieName example_CSRF, Value = [], Path = GetCookiePath example_CSRF,
            Domain = [], Expires = None, http_Cookie.Secure = False, HttpOnly = False\<rparr>"
      fresh_world "verify example_derive" example_csrf "''secret''" "[]"]
  by (simp add: Validate_def Validate_reject_def FormValue_def form_of_def Header_Get_def
      http_Error_def http_SetCookie_def StatusBadRequest_def Let_def no_Request_def
      fresh_world_def example_CSRF_def csrf_as_CSRF_def csrf_GetHeaderName_def
      csrf_GetFormName_def csrf_GetCookieName_def csrf_GetCookiePath_def csrf_ValidToken_def
      csrf_Error_def example_csrf_def verify_iff example_derive_def prepareOptions_def
      zero_Options_def default_ErrorFunc_def)

text \<open>
  C6, as stated, fails on the code in the message: the text passed to \<^verbatim>\<open>http.Error\<close> is
  \<^verbatim>\<open>Bad Request: no CSRF token present\<close>, not \<^verbatim>\<open>no CSRF token present\<close>.
\<close>

theorem missing_token_counterexample:
  "w (snd (Validate example_CSRF no_Request fresh_world)) =
     [W_Error ''Bad Request: no CSRF token present'' 400] \<and>
   w (snd (Validate example_CSRF no_Request fresh_world)) \<noteq>
     [W_Error ''no CSRF token present'' 400]"
  by (simp add: Validate_def FormValue_def form_of_def Header_Get_def http_Error_def
      StatusBadRequest_def Let_def no_Request_def fresh_world_def example_CSRF_def
      csrf_as_CSRF_def)

text \<open>
  C6, amended. With neither a header token nor a form token, the handler answers
  \<^verbatim>\<open>http.Error(w, "Bad Request: no CSRF token present", 400)\<close>, does not call the next handler
  and writes nothing else: no cookie is set.
\<close>

theorem missing_token_rejected:
  assumes "Header_Get r (GetHeaderName x) = []" and "form_of r (GetFormName x) = []"
  shows "Validate x r s =
     (Return,
      s\<lparr>w := w s @ [W_Error ''Bad Request: no CSRF token present'' 400],
        calls := calls s @ [Call_FormValue (GetFormName x)]\<rparr>)"
  using assms by (rule Validate_neither)

theorem missing_token_rejected_witness:
  "Header_Get (no_Request\<lparr>req_Cookie := [''_csrf'' \<mapsto> ''secret:0:POST'']\<rparr>)
      (GetHeaderName example_CSRF) = [] \<and>
   form_of (no_Request\<lparr>req_Cookie := [''_csrf'' \<mapsto> ''secret:0:POST'']\<rparr>)
      (GetFormName example_CSRF) = [] \<and>
   Validate example_CSRF (no_Request\<lparr>req_Cookie := [''_csrf'' \<mapsto> ''secret:0:POST'']\<rparr>)
      fresh_world =
     (Return,
      fresh_world\<lparr>w := [W_Error ''Bad Request: no CSRF token present'' 400],
                   calls := [Call_FormValue ''_csrf'']\<rparr>)"
  using missing_token_rejected [of "no_Request\<lparr>req_Cookie := [''_csrf'' \<mapsto> ''secret:0:POST'']\<rparr>"
      example_CSRF fresh_world]
  by (simp add: form_of_def Header_Get_def no_Request_def fresh_world_def example_CSRF_def
      csrf_as_CSRF_def csrf_GetHeaderName_def csrf_GetFormName_def example_csrf_def)

end
